theory Spec2Isabelle
  imports Complex_Main "HOL-Library.Word"
begin

section \<open>MicrostepCalculator.py: values, errors and the console\<close>

text \<open>
  The script samples a quarter sine wave at 256 points (\<open>sineWave\<close>), with the
  sampling points produced by one of three generators, and hands the samples to
  \<open>MicroStepTable.encodeWaveform\<close>.

  Python values are dynamically typed; \<open>sineWave\<close> inspects the type of its first two
  arguments, so these are modelled as tagged values. Python floats are idealised as
  real numbers. Where a theorem speaks of the value of a sample it speaks of this
  idealisation: a double result that falls on the other side of a rounding boundary, an
  int beyond 2^53 that loses digits when it becomes a float, or one too large to become
  a float at all (\<open>OverflowError\<close>) are outside the model. What is proved of the checks
  on the sampled values, of the type check, of the generators and of the effects of a
  call does not rest on the value of a sample.
\<close>

datatype pytype = T_int | T_bool | T_float | T_complex | T_str | T_NoneType

datatype pyval =
  PyInt int | PyBool bool | PyFloat real | PyComplex real real | PyStr string | PyNone

fun type_of :: "pyval \<Rightarrow> pytype" where
  "type_of (PyInt n) = T_int"
| "type_of (PyBool b) = T_bool"
| "type_of (PyFloat x) = T_float"
| "type_of (PyComplex re im) = T_complex"
| "type_of (PyStr s) = T_str"
| "type_of PyNone = T_NoneType"

text \<open>The integer held by a value of type \<open>int\<close> (only read after the type check).\<close>

fun int_of :: "pyval \<Rightarrow> int" where
  "int_of (PyInt n) = n"
| "int_of v = 0"

text \<open>The exceptions the script raises, each with its message.\<close>

datatype py_error = TypeError | ValueError string | RuntimeError string

text \<open>
  The one effect of \<open>sineWave\<close> is \<open>print\<close>. The state of the program is the text
  printed so far together with whatever else it holds (module globals, other objects):
  the functions below work on any extension \<open>'s world_scheme\<close> of the record, so what
  they do to the rest of the state is visible in their results.
\<close>

record world =
  stdout :: "string list"

definition py_print :: "string \<Rightarrow> 's world_scheme \<Rightarrow> 's world_scheme" where
  "py_print line w = w\<lparr>stdout := stdout w @ [line]\<rparr>"

text \<open>
  Python's \<open>round(x)\<close> on a float: the nearest integer, a tie going to the even
  neighbour.
\<close>

definition py_round :: "real \<Rightarrow> int" where
  "py_round x =
     (let f = \<lfloor>x\<rfloor>; r = x - of_int f
      in if r < 1 / 2 then f
         else if 1 / 2 < r then f + 1
         else if even f then f else f + 1)"

text \<open>Python's \<open>max\<close> of a list: \<open>ValueError\<close> on the empty list.\<close>

fun py_max :: "int list \<Rightarrow> py_error + int" where
  "py_max [] = Inl (ValueError ''max() arg is an empty sequence'')"
| "py_max (x # xs) = Inr (fold max xs x)"

section \<open>sineWave\<close>

text \<open>
  Line 66, the value sampled at point \<open>i\<close>:
  \<^verbatim>\<open>round(math.sin(2*(i+0.5)/1024*math.pi)*amplitude + offset)\<close>
\<close>

definition sample :: "int \<Rightarrow> int \<Rightarrow> real \<Rightarrow> int" where
  "sample amplitude offset i =
     py_round (sin (2 * (i + 0.5) / 1024 * pi) * of_int amplitude + of_int offset)"

text \<open>
  Lines 63 to 66: \<^verbatim>\<open>for i in sampling_points: values += [...]\<close>, the list
  \<open>values\<close> growing at its end.
\<close>

fun sample_loop :: "int \<Rightarrow> int \<Rightarrow> real list \<Rightarrow> int list \<Rightarrow> int list" where
  "sample_loop amplitude offset [] values = values"
| "sample_loop amplitude offset (i # sampling_points) values =
     sample_loop amplitude offset sampling_points (values @ [sample amplitude offset i])"

definition amplitude_warning :: string where
  "amplitude_warning =
     ''Warning: The amplitude is exceeding 247. This may result in an overflow when combined with SpreadCycle''"

text \<open>
  Lines 68 to 77, the checks on the sampled values, in the order of the source: the
  maximum (which raises on an empty list) against 256, the warning above 247, then the
  number of values.
\<close>

definition check_values ::
  "int list \<Rightarrow> 's world_scheme \<Rightarrow> (py_error + int list) \<times> 's world_scheme" where
  "check_values values w =
     (case py_max values of
        Inl e \<Rightarrow> (Inl e, w)
      | Inr m \<Rightarrow>
          if 256 \<le> m then (Inl (ValueError ''Sampled amplitude has to be below 256''), w)
          else
            let w' = (if 247 < m then py_print amplitude_warning w else w)
            in if length values \<noteq> 256
               then (Inl (RuntimeError ''256 sampling points are required''), w')
               else (Inr values, w'))"

text \<open>
  The whole function, on sampling points that are numbers, each entering line 66 as its
  float; what Python does with any other argument is the subject of the next section.
  Line 60 is a chained comparison: \<^verbatim>\<open>type(amplitude) == type(offset) == int\<close> holds
  when both types are exactly \<open>int\<close> (a \<open>bool\<close> is not).
\<close>

definition sineWave ::
  "pyval \<Rightarrow> pyval \<Rightarrow> real list \<Rightarrow> 's world_scheme \<Rightarrow>
     (py_error + int list) \<times> 's world_scheme" where
  "sineWave amplitude offset sampling_points w =
     (if \<not> (type_of amplitude = type_of offset \<and> type_of offset = T_int)
      then (Inl TypeError, w)
      else check_values (sample_loop (int_of amplitude) (int_of offset) sampling_points []) w)"

section \<open>sineWave as Python calls it\<close>

text \<open>
  The function above takes its sampling points as a list of numbers. Python passes
  whatever the caller gives: the \<^verbatim>\<open>for\<close> statement of line 65 asks the argument for its
  items, and line 66 adds 0.5 to each item. Both can raise \<open>TypeError\<close>.

  The number an item stands for in line 66: an int, a bool (\<open>True\<close> is 1) or a float is
  a real number. A string or \<open>None\<close> is not, and the addition \<open>i+0.5\<close> raises
  \<open>TypeError\<close>; a complex number passes the addition and \<open>math.sin\<close> refuses it, with
  \<open>TypeError\<close> again.
\<close>

fun point_of :: "pyval \<Rightarrow> py_error + real" where
  "point_of (PyInt n) = Inr (of_int n)"
| "point_of (PyBool b) = Inr (of_bool b)"
| "point_of (PyFloat x) = Inr x"
| "point_of (PyComplex re im) = Inl TypeError"
| "point_of (PyStr s) = Inl TypeError"
| "point_of PyNone = Inl TypeError"

definition is_number :: "pyval \<Rightarrow> bool" where
  "is_number v = (type_of v = T_int \<or> type_of v = T_bool \<or> type_of v = T_float)"

text \<open>
  The numbers on which the float arithmetic of line 66 raises nothing: a bool, and an int
  or a float of magnitude at most 2^53. (Far beyond, an int is too large to become a
  float, \<open>OverflowError\<close>, and a float product overflows to infinity, which
  \<open>math.sin\<close> refuses with \<open>ValueError\<close>: the loop then stops before it comes to the
  next item.)
\<close>

definition plain_number :: "pyval \<Rightarrow> bool" where
  "plain_number v =
     (case v of
        PyInt n \<Rightarrow> \<bar>n\<bar> \<le> 2 ^ 53
      | PyBool b \<Rightarrow> True
      | PyFloat x \<Rightarrow> \<bar>x\<bar> \<le> 2 ^ 53
      | _ \<Rightarrow> False)"

text \<open>
  Lines 65 and 66 on the items the iteration delivers, in order. The loop stops at the
  first item that is not a number; the items after it have not been asked for, and are
  returned with the error.
\<close>

fun sample_items ::
  "int \<Rightarrow> int \<Rightarrow> pyval list \<Rightarrow> int list \<Rightarrow> (py_error \<times> pyval list) + int list" where
  "sample_items amplitude offset [] values = Inr values"
| "sample_items amplitude offset (i # items) values =
     (case point_of i of
        Inl e \<Rightarrow> Inl (e, items)
      | Inr x \<Rightarrow> sample_items amplitude offset items (values @ [sample amplitude offset x]))"

text \<open>
  Lines 63 to 77 on the items: the loop, then the checks on the sampled values. With the
  result and the state come the items that were not asked for (none after a loop that ran
  to its end).
\<close>

definition sineWave_body ::
  "int \<Rightarrow> int \<Rightarrow> pyval list \<Rightarrow> 's world_scheme \<Rightarrow>
     ((py_error + int list) \<times> 's world_scheme) \<times> pyval list" where
  "sineWave_body amplitude offset items w =
     (case sample_items amplitude offset items [] of
        Inl (e, rest) \<Rightarrow> ((Inl e, w), rest)
      | Inr values \<Rightarrow> (check_values values w, []))"

text \<open>
  What is passed as \<open>sampling_points\<close>: something that cannot be iterated (\<open>None\<close>, a
  number), on which the \<^verbatim>\<open>for\<close> statement raises \<open>TypeError\<close>; or a sequence that
  every loop passes over from its start (a list, a tuple, a range; a string is the
  sequence of its one-character strings).
\<close>

datatype sampling_arg = NotIterable | Sequence "pyval list"

text \<open>
  The call: the type check of line 60 first, then the loop and the checks. On a list of
  floats it is \<open>sineWave\<close> above (lemma \<open>sineWave_call_floats\<close>).
\<close>

definition sineWave_call ::
  "pyval \<Rightarrow> pyval \<Rightarrow> sampling_arg \<Rightarrow> 's world_scheme \<Rightarrow>
     (py_error + int list) \<times> 's world_scheme" where
  "sineWave_call amplitude offset sampling_points w =
     (if \<not> (type_of amplitude = type_of offset \<and> type_of offset = T_int)
      then (Inl TypeError, w)
      else
        case sampling_points of
          NotIterable \<Rightarrow> (Inl TypeError, w)
        | Sequence items \<Rightarrow> fst (sineWave_body (int_of amplitude) (int_of offset) items w))"




section \<open>The sampling-point generators\<close>

text \<open>
  A generator is modelled by the list of the values it yields, \<open>None\<close> if it never
  finishes. The \<^verbatim>\<open>while\<close> loops are written as they are, so that their termination is
  a theorem and not an assumption of the model.
\<close>

partial_function (option) linearGenerator_while :: "int \<Rightarrow> int list \<Rightarrow> int list option" where
  "linearGenerator_while value yielded =
     (if value < 256 then linearGenerator_while (value + 1) (yielded @ [value])
      else Some yielded)"

declare linearGenerator_while.simps [code]

definition linearGenerator :: "int list option" where
  "linearGenerator = linearGenerator_while 0 []"

definition hardcodedGenerator :: "int list option" where
  "hardcodedGenerator = Some
     [
      0, 1, 2, 3, 4, 5, 6, 7, 8, 9, 10, 11, 12, 13, 14, 15,  \<comment> \<open>row 1 of the literal\<close>
      16, 17, 18, 19, 20, 21, 22, 23, 24, 25, 26, 27, 28, 29, 30, 31,  \<comment> \<open>row 2 of the literal\<close>
      32, 33, 34, 35, 36, 37, 38, 39, 40, 41, 42, 43, 44, 45, 46, 47,  \<comment> \<open>row 3 of the literal\<close>
      48, 49, 50, 51, 52, 53, 54, 55, 56, 57, 58, 59, 60, 61, 62, 63,  \<comment> \<open>row 4 of the literal\<close>
      64, 65, 66, 67, 68, 69, 70, 71, 72, 73, 74, 75, 76, 77, 78, 79,  \<comment> \<open>row 5 of the literal\<close>
      80, 81, 82, 83, 84, 85, 86, 87, 88, 89, 90, 91, 92, 93, 94, 95,  \<comment> \<open>row 6 of the literal\<close>
      96, 97, 98, 99, 100, 101, 102, 103, 104, 105, 106, 107, 108, 109, 110, 111,  \<comment> \<open>row 7 of the literal\<close>
      112, 113, 114, 115, 116, 117, 118, 119, 120, 121, 122, 123, 124, 125, 126, 127,  \<comment> \<open>row 8 of the literal\<close>
      128, 129, 130, 131, 132, 133, 134, 135, 136, 137, 138, 139, 140, 141, 142, 143,  \<comment> \<open>row 9 of the literal\<close>
      144, 145, 146, 147, 148, 149, 150, 151, 152, 153, 154, 155, 156, 157, 158, 159,  \<comment> \<open>row 10 of the literal\<close>
      160, 161, 162, 163, 164, 165, 166, 167, 168, 169, 170, 171, 172, 173, 174, 175,  \<comment> \<open>row 11 of the literal\<close>
      176, 177, 178, 179, 180, 181, 182, 183, 184, 185, 186, 187, 188, 189, 190, 191,  \<comment> \<open>row 12 of the literal\<close>
      192, 193, 194, 195, 196, 197, 198, 199, 200, 201, 202, 203, 204, 205, 206, 207,  \<comment> \<open>row 13 of the literal\<close>
      208, 209, 210, 211, 212, 213, 214, 215, 216, 217, 218, 219, 220, 221, 222, 223,  \<comment> \<open>row 14 of the literal\<close>
      224, 225, 226, 227, 228, 229, 230, 231, 232, 233, 234, 235, 236, 237, 238, 239,  \<comment> \<open>row 15 of the literal\<close>
      240, 241, 242, 243, 244, 245, 246, 247, 248, 249, 250, 251, 252, 253, 254, 255]"

partial_function (option) longitualWaveGenerator_while ::
  "real \<Rightarrow> int \<Rightarrow> real list \<Rightarrow> real list option" where
  "longitualWaveGenerator_while amplitude value yielded =
     (if value < 256
      then longitualWaveGenerator_while amplitude (value + 1)
             (yielded @ [of_int value + amplitude * sin (2 * (of_int value / 256) * pi)])
      else Some yielded)"

declare longitualWaveGenerator_while.simps [code]

definition longitualWaveGenerator :: "real \<Rightarrow> real list option" where
  "longitualWaveGenerator amplitude = longitualWaveGenerator_while amplitude 0 []"

section \<open>Sampling through a generator\<close>

text \<open>
  Lines 106 to 111 of the main block: the generator is run to its end by \<open>list(...)\<close>,
  then \<open>sineWave\<close> is called on the list. An integer point enters line 66 through
  \<open>i+0.5\<close>, that is as the float of the same value. The result is \<open>None\<close> when the
  generator does not finish.
\<close>

definition int_points :: "int list option \<Rightarrow> real list option" where
  "int_points g = map_option (map of_int) g"

definition sineWave_over ::
  "pyval \<Rightarrow> pyval \<Rightarrow> real list option \<Rightarrow> 's world_scheme \<Rightarrow>
     ((py_error + int list) \<times> 's world_scheme) option" where
  "sineWave_over amplitude offset generator w =
     (case generator of
        None \<Rightarrow> None
      | Some sampling_points \<Rightarrow> Some (sineWave amplitude offset sampling_points w))"

text \<open>
  The parameters at the head of the script (lines 32 to 37) and the call the main block
  makes with them: the modulated sampling points, then \<open>sineWave\<close>.
\<close>

definition MICROSTEP_AMPLITUDE :: int where
  "MICROSTEP_AMPLITUDE = 248"

definition MICROSTEP_OFFSET :: int where
  "MICROSTEP_OFFSET = - 1"

definition MODULATION_AMPLITUDE :: int where
  "MODULATION_AMPLITUDE = - 27"

definition main_values :: "'s world_scheme \<Rightarrow> ((py_error + int list) \<times> 's world_scheme) option" where
  "main_values w =
     sineWave_over (PyInt MICROSTEP_AMPLITUDE) (PyInt MICROSTEP_OFFSET)
       (longitualWaveGenerator (of_int MODULATION_AMPLITUDE)) w"

section \<open>The encoder: MicroStepTable.encodeWaveform\<close>

text \<open>
  Modelled from the spec: \<open>MicroStepTable.encodeWaveform\<close>, which the script imports from
  \<open>PyTrinamicTools.helpers.Microsteps\<close>; that module is not among the sources, only the
  call at lines 114 to 118 is. The model follows section 4.1 of the specification. Its
  steps 1 (shape), 2 (deltas) and 7 (the reconstruction compared with the input) are
  written as the specification words them. The specification fixes neither the rule that
  places the zone boundaries (its design notes leave it open) nor the bit offsets of the
  control and start words, so steps 3 to 6 and the reading back of the registers are
  parameters of the model, together a table format; every theorem about the encoder
  holds for all of them.
\<close>

datatype encode_error = ShapeError | EncodingError string | InternalConsistencyError

text \<open>Eight table words, the control word and the start word.\<close>

record RegisterSet =
  table_words :: "32 word list"
  control_word :: "32 word"
  start_word :: "32 word"

text \<open>
  Step 3 finds the zones from the deltas or fails; steps 4 to 6 pack the registers from
  the samples, the deltas and the zones; the reconstruction reads the samples back.
\<close>

record 'z table_format =
  determine_zones :: "int list \<Rightarrow> 'z option"
  pack_registers :: "int list \<Rightarrow> int list \<Rightarrow> 'z \<Rightarrow> RegisterSet"
  reconstruct :: "RegisterSet \<Rightarrow> int list"

text \<open>
  Modelled from the spec: step 1 of the encoder (the encoder's source is missing), the
  sequence has exactly 256 elements, each an integer in [0, 255].
\<close>

definition shape_ok :: "int list \<Rightarrow> bool" where
  "shape_ok samples = (length samples = 256 \<and> (\<forall>s\<in>set samples. 0 \<le> s \<and> s \<le> 255))"

text \<open>
  Modelled from the spec: step 2 of the encoder (the encoder's source is missing), for i
  in [0, 254], delta[i] = samples[i+1] - samples[i].
\<close>

definition deltas :: "int list \<Rightarrow> int list" where
  "deltas samples = map (\<lambda>i. samples ! (i + 1) - samples ! i) [0..<255]"

text \<open>
  Modelled from the spec: \<open>encode\<close> of section 4.1, standing for
  \<open>MicroStepTable.encodeWaveform\<close> (its source is missing). The errors come in the order
  of the steps: \<open>ShapeError\<close>, \<open>EncodingError\<close> for a delta outside {0, 1, 2, 3},
  \<open>EncodingError\<close> when no zones are found, \<open>InternalConsistencyError\<close> when the
  registers do not reconstruct to the input.
\<close>

definition encodeWaveform :: "'z table_format \<Rightarrow> int list \<Rightarrow> encode_error + RegisterSet" where
  "encodeWaveform fmt samples =
     (if \<not> shape_ok samples then Inl ShapeError
      else
        let delta = deltas samples
        in if \<exists>d\<in>set delta. d < 0 \<or> 3 < d
           then Inl (EncodingError ''non-monotone or step too large'')
           else
             case determine_zones fmt delta of
               None \<Rightarrow> Inl (EncodingError ''waveform not representable in two delta magnitudes'')
             | Some zones \<Rightarrow>
                 let registers = pack_registers fmt samples delta zones
                 in if reconstruct fmt registers = samples then Inr registers
                    else Inl InternalConsistencyError)"

subsection \<open>A format to run the model on\<close>

text \<open>
  One zone and two delta magnitudes: the zone search accepts a waveform whose deltas are
  all \<open>b_low\<close> or \<open>b_low + 1\<close>; the table holds one bit per delta, set for the upper
  magnitude, with a trailing clear bit, in eight words, least significant bit first (step
  4); the control word holds \<open>b_low\<close> and the start word the first sample. The theorems
  do not depend on it: it gives them inputs on which the encoder succeeds.
\<close>

definition pack_bits :: "bool list \<Rightarrow> 32 word list" where
  "pack_bits bits = map (\<lambda>k. horner_sum of_bool 2 (take 32 (drop (32 * k) bits))) [0..<8]"

definition unpack_bits :: "32 word list \<Rightarrow> bool list" where
  "unpack_bits ws = concat (map (\<lambda>w. map (bit w) [0..<32]) ws)"

fun accumulate :: "int \<Rightarrow> int list \<Rightarrow> int list" where
  "accumulate start [] = [start]"
| "accumulate start (d # ds) = start # accumulate (start + d) ds"

definition single_zone_format :: "int table_format" where
  "single_zone_format =
     \<lparr>determine_zones = (\<lambda>delta.
        let b_low = fold min delta 3
        in if \<forall>d\<in>set delta. d = b_low \<or> d = b_low + 1 then Some b_low else None),
      pack_registers = (\<lambda>samples delta b_low.
        \<lparr>table_words = pack_bits (map (\<lambda>d. d = b_low + 1) delta @ [False]),
         control_word = word_of_int b_low,
         start_word = word_of_int (samples ! 0)\<rparr>),
      reconstruct = (\<lambda>registers.
        accumulate (uint (start_word registers))
          (map (\<lambda>b. uint (control_word registers) + of_bool b)
             (take 255 (unpack_bits (table_words registers)))))\<rparr>"

text \<open>
  The same format with an encoder defect: the start word is left at 0, so the registers
  do not give the waveform back unless it starts at 0.
\<close>

definition defective_format :: "int table_format" where
  "defective_format =
     single_zone_format\<lparr>pack_registers := (\<lambda>samples delta b_low.
        (pack_registers single_zone_format samples delta b_low)\<lparr>start_word := 0\<rparr>)\<rparr>"

section \<open>Facts about the helpers\<close>

lemma sample_loop_map:
  "sample_loop a b pts vs = vs @ map (sample a b) pts"
  by (induction pts arbitrary: vs) simp_all

lemma py_max_Max:
  assumes "vs \<noteq> []"
  shows "py_max vs = Inr (Max (set vs))"
proof (cases vs)
  case Nil
  with assms show ?thesis by simp
next
  case (Cons x xs)
  have "fold max xs x = Max (set (x # xs))"
    by (rule Max.set_eq_fold [symmetric])
  then show ?thesis using Cons by simp
qed

text \<open>The checks of lines 68 to 77, read as one case distinction on the list.\<close>

lemma check_values_cases:
  "fst (check_values vs w) =
     (if vs = [] then Inl (ValueError ''max() arg is an empty sequence'')
      else if \<exists>v\<in>set vs. 255 < v then Inl (ValueError ''Sampled amplitude has to be below 256'')
      else if length vs \<noteq> 256 then Inl (RuntimeError ''256 sampling points are required'')
      else Inr vs)"
proof (cases "vs = []")
  case True
  then show ?thesis by (simp add: check_values_def)
next
  case False
  then have m: "py_max vs = Inr (Max (set vs))" by (rule py_max_Max)
  have "(256 \<le> Max (set vs)) = (\<exists>v\<in>set vs. 256 \<le> v)"
    using False by (simp add: Max_ge_iff)
  also have "\<dots> = (\<exists>v\<in>set vs. 255 < v)"
    by (rule bex_cong) auto
  finally show ?thesis using False m
    by (simp add: check_values_def Let_def)
qed

text \<open>What the checks leave on the console.\<close>

lemma check_values_world:
  "snd (check_values vs w) =
     (if vs \<noteq> [] \<and> 247 < Max (set vs) \<and> \<not> 256 \<le> Max (set vs)
      then py_print amplitude_warning w else w)"
proof (cases "vs = []")
  case True
  then show ?thesis by (simp add: check_values_def)
next
  case False
  then have m: "py_max vs = Inr (Max (set vs))" by (rule py_max_Max)
  show ?thesis using False m
    by (simp add: check_values_def Let_def del: Max_less_iff Max_ge_iff)
qed

text \<open>Bounds on a sample, from \<open>\<bar>sin x\<bar> \<le> 1\<close>.\<close>

lemma sample_zero: "sample 0 b i = b"
  by (simp add: sample_def py_round_def)

lemma py_round_le: assumes "x \<le> of_int n" shows "py_round x \<le> n"
proof -
  have f: "\<lfloor>x\<rfloor> \<le> n" using assms by (simp add: floor_le_iff)
  show ?thesis
  proof (cases "\<lfloor>x\<rfloor> = n")
    case True
    then have "x - of_int \<lfloor>x\<rfloor> \<le> 0" using assms by simp
    then show ?thesis using True by (simp add: py_round_def Let_def)
  next
    case False
    then have "\<lfloor>x\<rfloor> + 1 \<le> n" using f by linarith
    then show ?thesis using f by (simp add: py_round_def Let_def)
  qed
qed

lemma sample_le: "sample a b i \<le> \<bar>a\<bar> + b"
proof -
  have "sin (2 * (i + 0.5) / 1024 * pi) * of_int a \<le> \<bar>sin (2 * (i + 0.5) / 1024 * pi) * of_int a\<bar>"
    by simp
  also have "\<dots> \<le> 1 * \<bar>of_int a\<bar>"
    unfolding abs_mult by (rule mult_right_mono) simp_all
  finally have "sin (2 * (i + 0.5) / 1024 * pi) * of_int a + of_int b \<le> of_int (\<bar>a\<bar> + b)"
    by simp
  then show ?thesis unfolding sample_def by (rule py_round_le)
qed

text \<open>
  The loops of the generators, started anywhere at or below 256: what has been yielded so
  far, then the remaining counter values up to 255.
\<close>

lemma linearGenerator_while_upto:
  "v \<le> 256 \<Longrightarrow> linearGenerator_while v ys = Some (ys @ [v..255])"
proof (induction "nat (256 - v)" arbitrary: v ys)
  case 0
  then show ?case by (simp add: linearGenerator_while.simps)
next
  case (Suc n)
  then have "v < 256" by linarith
  moreover have "linearGenerator_while (v + 1) (ys @ [v]) = Some ((ys @ [v]) @ [v + 1..255])"
    using Suc by (intro Suc.hyps(1)) linarith+
  ultimately show ?case
    by (subst linearGenerator_while.simps) (simp add: upto_rec1 [of v 255])
qed

lemma linearGenerator_upto: "linearGenerator = Some [0..255]"
  by (simp add: linearGenerator_def linearGenerator_while_upto)

lemma hardcodedGenerator_upto: "hardcodedGenerator = Some [0..255]"
  unfolding hardcodedGenerator_def by code_simp

lemma longitualWaveGenerator_while_upto:
  "v \<le> 256 \<Longrightarrow> longitualWaveGenerator_while a v ys =
     Some (ys @ map (\<lambda>value. of_int value + a * sin (2 * (of_int value / 256) * pi)) [v..255])"
proof (induction "nat (256 - v)" arbitrary: v ys)
  case 0
  then show ?case by (simp add: longitualWaveGenerator_while.simps)
next
  case (Suc n)
  let ?y = "of_int v + a * sin (2 * (of_int v / 256) * pi)"
  let ?f = "\<lambda>value. of_int value + a * sin (2 * (of_int value / 256) * pi)"
  from Suc have "v < 256" by linarith
  moreover have "longitualWaveGenerator_while a (v + 1) (ys @ [?y]) =
      Some ((ys @ [?y]) @ map ?f [v + 1..255])"
    using Suc by (intro Suc.hyps(1)) linarith+
  ultimately show ?case
    by (subst longitualWaveGenerator_while.simps) (simp add: upto_rec1 [of v 255])
qed



lemma longitualWaveGenerator_upto:
  "longitualWaveGenerator a =
     Some (map (\<lambda>value. of_int value + a * sin (2 * (of_int value / 256) * pi)) [0..255])"
  by (simp add: longitualWaveGenerator_def longitualWaveGenerator_while_upto)

lemma length_upto_255: "length [0..255::int] = 256"
  unfolding length_upto by simp

lemma sorted_upto_255: "sorted_wrt (<) [0..255::int]"
  by (rule sorted_wrt_upto)

text \<open>
  Amplitude 0 makes every sample equal to the offset, whatever the points are: the
  inputs on which the whole of \<open>sineWave\<close> is evaluated below.
\<close>

lemma check_values_replicate:
  assumes "c \<le> 255"
  shows "check_values (replicate 256 c) w =
     (Inr (replicate 256 c), if 247 < c then py_print amplitude_warning w else w)"
proof -
  have ne: "replicate 256 c \<noteq> []" by simp
  have "set (replicate 256 c) = {c}" by simp
  then have "Max (set (replicate 256 c)) = c" by (simp only: Max_singleton)
  then have m: "py_max (replicate 256 c) = Inr c" using py_max_Max [OF ne] by simp
  show ?thesis using assms unfolding check_values_def m by (simp add: Let_def)
qed

lemma sineWave_amplitude_0:
  assumes "length pts = 256" and "b \<le> 255"
  shows "sineWave (PyInt 0) (PyInt b) pts w =
     (Inr (replicate 256 b), if 247 < b then py_print amplitude_warning w else w)"
proof -
  have "map (sample 0 b) pts = replicate (length pts) b"
    by (induction pts) (simp_all add: sample_zero)
  then have "sample_loop 0 b pts [] = replicate 256 b"
    using assms(1) by (simp add: sample_loop_map)
  then show ?thesis
    by (simp add: sineWave_def check_values_replicate [OF assms(2)])
qed

lemma length_points_255: "length (map real_of_int [0..255]) = 256"
  by (simp only: length_map length_upto_255)

text \<open>
  With the script's amplitude 248 and offset \<open>-1\<close> every sample is at most 247, so on
  any 256 sampling points \<open>sineWave\<close> returns the 256 rounded samples and prints
  nothing; so does the call of the main block.
\<close>

lemma sineWave_script_parameters:
  assumes "length pts = 256"
  shows "sineWave (PyInt 248) (PyInt (- 1)) pts w = (Inr (map (sample 248 (- 1)) pts), w)"
    and "\<forall>v\<in>set (map (sample 248 (- 1)) pts). v \<le> 247"
proof -
  let ?vs = "map (sample 248 (- 1)) pts"
  show le: "\<forall>v\<in>set ?vs. v \<le> 247"
    using sample_le [of 248 "- 1"] by auto
  have ne: "?vs \<noteq> []" using assms by auto
  have "fst (check_values ?vs w) = Inr ?vs"
    unfolding check_values_cases using le ne assms by auto
  moreover have "snd (check_values ?vs w) = w"
  proof -
    have "Max (set ?vs) \<le> 247" using le ne by simp
    then have "\<not> 247 < Max (set ?vs)" by linarith
    then show ?thesis unfolding check_values_world by simp
  qed
  ultimately have "check_values ?vs w = (Inr ?vs, w)" by (metis prod.collapse)
  then show "sineWave (PyInt 248) (PyInt (- 1)) pts w = (Inr ?vs, w)"
    by (simp add: sineWave_def sample_loop_map)
qed

lemma main_values_returns:
  "\<exists>values. main_values w = Some (Inr values, w) \<and> length values = 256
     \<and> (\<forall>v\<in>set values. v \<le> 247)"
proof -
  let ?pts = "map (\<lambda>value. of_int value
      + of_int MODULATION_AMPLITUDE * sin (2 * (of_int value / 256) * pi)) [0..255]"
  have g: "longitualWaveGenerator (of_int MODULATION_AMPLITUDE) = Some ?pts"
    by (rule longitualWaveGenerator_upto)
  have l: "length ?pts = 256"
    by (simp only: length_map length_upto_255)
  have "main_values w = Some (Inr (map (sample 248 (- 1)) ?pts), w)"
    unfolding main_values_def sineWave_over_def g MICROSTEP_AMPLITUDE_def MICROSTEP_OFFSET_def
    using sineWave_script_parameters(1) [OF l] by simp
  moreover have "length (map (sample 248 (- 1)) ?pts) = 256"
    using l by (simp only: length_map)
  moreover have "\<forall>v\<in>set (map (sample 248 (- 1)) ?pts). v \<le> 247"
    by (rule sineWave_script_parameters(2) [OF l])
  ultimately show ?thesis by blast
qed

text \<open>
  The loop over items of any kind: it samples every item when all are numbers, and stops
  with \<open>TypeError\<close> when one is not. The effect of the checks and of a call: a result and
  an output that depend on the arguments only, the output appended to the console.
\<close>

lemma point_of_number: "(\<exists>x. point_of v = Inr x) = is_number v"
  by (cases v) (simp_all add: is_number_def)

lemma point_of_error: "point_of v = Inl e \<Longrightarrow> e = TypeError \<and> \<not> is_number v"
  by (cases v) (simp_all add: is_number_def)

lemma sample_items_numbers:
  "\<forall>i\<in>set items. is_number i \<Longrightarrow>
     \<exists>pts. length pts = length items \<and> sample_items a b items vs = Inr (vs @ map (sample a b) pts)"
proof (induction items arbitrary: vs)
  case Nil
  then show ?case by simp
next
  case (Cons i items)
  then obtain x where x: "point_of i = Inr x" using point_of_number [of i] by auto
  from Cons obtain pts where "length pts = length items"
    "sample_items a b items (vs @ [sample a b x]) = Inr ((vs @ [sample a b x]) @ map (sample a b) pts)"
    by fastforce
  then show ?case using x by (intro exI [of _ "x # pts"]) simp
qed

lemma sample_items_error:
  "\<exists>i\<in>set items. \<not> is_number i \<Longrightarrow>
     \<exists>rest. sample_items a b items vs = Inl (TypeError, rest) \<and> length rest < length items"
proof (induction items arbitrary: vs)
  case Nil
  then show ?case by simp
next
  case (Cons i items)
  show ?case
  proof (cases "point_of i")
    case (Inl e)
    then show ?thesis using point_of_error [OF Inl] by simp
  next
    case (Inr x)
    then have "is_number i" using point_of_number [of i] by auto
    with Cons.prems have "\<exists>i\<in>set items. \<not> is_number i" by auto
    from Cons.IH [OF this, of "vs @ [sample a b x]"] Inr show ?thesis by auto
  qed
qed

lemma sample_items_floats:
  "sample_items a b (map PyFloat pts) vs = Inr (sample_loop a b pts vs)"
  by (induction pts arbitrary: vs) simp_all

lemma sample_items_ints:
  "sample_items a b (map PyInt pts) vs = Inr (sample_loop a b (map of_int pts) vs)"
  by (induction pts arbitrary: vs) simp_all

lemma sineWave_call_floats:
  "sineWave_call amplitude offset (Sequence (map PyFloat pts)) w = sineWave amplitude offset pts w"
  by (simp add: sineWave_call_def sineWave_def sineWave_body_def sample_items_floats)

lemma sineWave_call_ints:
  "sineWave_call amplitude offset (Sequence (map PyInt pts)) w =
     sineWave amplitude offset (map of_int pts) w"
  by (simp add: sineWave_call_def sineWave_def sineWave_body_def sample_items_ints)


lemma sineWave_body_numbers:
  assumes "\<forall>i\<in>set items. is_number i"
  shows "\<exists>pts. length pts = length items
     \<and> sineWave_body a b items w = (check_values (map (sample a b) pts) w, [])"
proof -
  from sample_items_numbers [OF assms, of a b "[]"] obtain pts where
    "length pts = length items" "sample_items a b items [] = Inr (map (sample a b) pts)"
    by auto
  then show ?thesis by (auto simp: sineWave_body_def)
qed

lemma sineWave_body_error:
  assumes "\<exists>i\<in>set items. \<not> is_number i"
  shows "\<exists>rest. sineWave_body a b items w = ((Inl TypeError, w), rest) \<and> length rest < length items"
proof -
  from sample_items_error [OF assms, of a b "[]"] obtain rest where
    "sample_items a b items [] = Inl (TypeError, rest)" "length rest < length items"
    by auto
  then show ?thesis by (auto simp: sineWave_body_def)
qed

lemma plain_number_is_number: "plain_number v \<Longrightarrow> is_number v"
  by (cases v) (simp_all add: plain_number_def is_number_def)

lemma sample_items_stops:
  assumes "\<forall>i\<in>set numbers. is_number i" and "\<not> is_number bad"
  shows "sample_items a b (numbers @ bad # rest) vs = Inl (TypeError, rest)"
  using assms(1)
proof (induction numbers arbitrary: vs)
  case Nil
  from assms(2) have "point_of bad = Inl TypeError"
    by (cases bad) (simp_all add: is_number_def)
  then show ?case by simp
next
  case (Cons i numbers)
  then obtain x where "point_of i = Inr x" using point_of_number [of i] by auto
  with Cons show ?case by simp
qed

lemma check_values_not_TypeError: "fst (check_values vs w) \<noteq> Inl TypeError"
  by (simp add: check_values_cases)











section \<open>The type check of sineWave\<close>

text \<open>
  Claim C9, as the code has it. \<open>sineWave\<close> raises \<open>TypeError\<close> whenever the amplitude
  or the offset is not an \<open>int\<close>, whatever is passed as sampling points, before any
  point is sampled and before anything is printed: the type check is the first
  operation. With an \<open>int\<close> amplitude and an \<open>int\<close> offset a \<open>TypeError\<close> comes from the
  sampling points alone: it is never raised on a sequence of real numbers (ints, bools,
  floats); it is raised when the argument cannot be iterated, and when the loop, past
  numbers it can sample, comes to an item that is not a real number.
\<close>

theorem sineWave_call_TypeError:
  "(type_of amplitude \<noteq> T_int \<or> type_of offset \<noteq> T_int \<longrightarrow>
      sineWave_call amplitude offset sampling_points w = (Inl TypeError, w))
   \<and> (type_of amplitude = T_int \<and> type_of offset = T_int
        \<and> fst (sineWave_call amplitude offset sampling_points w) = Inl TypeError \<longrightarrow>
      sampling_points = NotIterable
      \<or> (\<exists>items. sampling_points = Sequence items \<and> (\<exists>i\<in>set items. \<not> is_number i)))
   \<and> (type_of amplitude = T_int \<and> type_of offset = T_int \<longrightarrow>
      sineWave_call amplitude offset NotIterable w = (Inl TypeError, w))
   \<and> (type_of amplitude = T_int \<and> type_of offset = T_int
        \<and> plain_number amplitude \<and> plain_number offset
        \<and> (\<forall>i\<in>set numbers. plain_number i) \<and> \<not> is_number bad \<longrightarrow>
      sineWave_call amplitude offset (Sequence (numbers @ bad # rest)) w = (Inl TypeError, w))
   \<and> (type_of amplitude = T_int \<and> type_of offset = T_int \<longrightarrow>
      fst (sineWave amplitude offset points w) \<noteq> Inl TypeError)
   \<and> sineWave_call amplitude offset (Sequence (map PyFloat points)) w =
       sineWave amplitude offset points w"
proof (intro conjI impI)
  assume "type_of amplitude \<noteq> T_int \<or> type_of offset \<noteq> T_int"
  then show "sineWave_call amplitude offset sampling_points w = (Inl TypeError, w)"
    by (auto simp: sineWave_call_def)
next
  assume a: "type_of amplitude = T_int \<and> type_of offset = T_int
        \<and> fst (sineWave_call amplitude offset sampling_points w) = Inl TypeError"
  show "sampling_points = NotIterable
      \<or> (\<exists>items. sampling_points = Sequence items \<and> (\<exists>i\<in>set items. \<not> is_number i))"
  proof (cases sampling_points)
    case NotIterable
    then show ?thesis by simp
  next
    case (Sequence items)
    have "\<exists>i\<in>set items. \<not> is_number i"
    proof (rule ccontr)
      assume "\<not> (\<exists>i\<in>set items. \<not> is_number i)"
      then have "\<forall>i\<in>set items. is_number i" by simp
      from sineWave_body_numbers [OF this, of "int_of amplitude" "int_of offset" w]
      have "fst (sineWave_call amplitude offset sampling_points w) \<noteq> Inl TypeError"
        using a Sequence by (auto simp: sineWave_call_def check_values_not_TypeError)
      with a show False by simp
    qed
    with Sequence show ?thesis by simp
  qed
next
  assume "type_of amplitude = T_int \<and> type_of offset = T_int"
  then show "sineWave_call amplitude offset NotIterable w = (Inl TypeError, w)"
    by (simp add: sineWave_call_def)
next
  assume a: "type_of amplitude = T_int \<and> type_of offset = T_int
        \<and> plain_number amplitude \<and> plain_number offset
        \<and> (\<forall>i\<in>set numbers. plain_number i) \<and> \<not> is_number bad"
  then have "\<forall>i\<in>set numbers. is_number i" by (simp add: plain_number_is_number)
  from sample_items_stops [OF this, of bad "int_of amplitude" "int_of offset" rest "[]"] a
  show "sineWave_call amplitude offset (Sequence (numbers @ bad # rest)) w = (Inl TypeError, w)"
    by (simp add: sineWave_call_def sineWave_body_def)
next
  assume "type_of amplitude = T_int \<and> type_of offset = T_int"
  then show "fst (sineWave amplitude offset points w) \<noteq> Inl TypeError"
    by (simp add: sineWave_def check_values_not_TypeError)
next
  show "sineWave_call amplitude offset (Sequence (map PyFloat points)) w =
       sineWave amplitude offset points w"
    by (rule sineWave_call_floats)
qed

theorem sineWave_call_TypeError_witness:
  "sineWave_call (PyFloat 248) (PyInt (- 1)) (Sequence [PyInt 0, PyInt 1]) \<lparr>stdout = []\<rparr>
      = (Inl TypeError, \<lparr>stdout = []\<rparr>)
   \<and> sineWave_call (PyInt 248) (PyBool True) NotIterable \<lparr>stdout = []\<rparr>
      = (Inl TypeError, \<lparr>stdout = []\<rparr>)
   \<and> sineWave_call (PyInt 248) (PyInt (- 1)) NotIterable \<lparr>stdout = []\<rparr>
      = (Inl TypeError, \<lparr>stdout = []\<rparr>)
   \<and> sineWave_call (PyInt 248) (PyInt (- 1)) (Sequence [PyInt 0, PyFloat 1, PyNone, PyInt 3])
        \<lparr>stdout = []\<rparr>
      = (Inl TypeError, \<lparr>stdout = []\<rparr>)
   \<and> fst (sineWave (PyInt 248) (PyInt (- 1)) [0, 1] \<lparr>stdout = []\<rparr>) \<noteq> Inl TypeError
   \<and> fst (sineWave_call (PyInt 248) (PyInt (- 1)) (Sequence (map PyFloat [0, 1]))
        \<lparr>stdout = []\<rparr>) \<noteq> Inl TypeError"
proof -
  note a = sineWave_call_TypeError [of "PyFloat 248" "PyInt (- 1)" "Sequence [PyInt 0, PyInt 1]"
      "\<lparr>stdout = []\<rparr>"]
  note b = sineWave_call_TypeError [of "PyInt 248" "PyBool True" NotIterable "\<lparr>stdout = []\<rparr>"]
  note c = sineWave_call_TypeError [of "PyInt 248" "PyInt (- 1)"
      "Sequence (map PyFloat [0, 1])" "\<lparr>stdout = []\<rparr>" "[PyInt 0, PyFloat 1]" PyNone
      "[PyInt 3]" "[0, 1]"]
  have p: "plain_number (PyInt 248) \<and> plain_number (PyInt (- 1))
      \<and> (\<forall>i\<in>set [PyInt 0, PyFloat 1]. plain_number i) \<and> \<not> is_number PyNone"
    by (simp add: plain_number_def is_number_def)
  have 1: "sineWave_call (PyFloat 248) (PyInt (- 1)) (Sequence [PyInt 0, PyInt 1]) \<lparr>stdout = []\<rparr>
      = (Inl TypeError, \<lparr>stdout = []\<rparr>)"
    using a by simp
  have 2: "sineWave_call (PyInt 248) (PyBool True) NotIterable \<lparr>stdout = []\<rparr>
      = (Inl TypeError, \<lparr>stdout = []\<rparr>)"
    using b by simp
  have 3: "sineWave_call (PyInt 248) (PyInt (- 1)) NotIterable \<lparr>stdout = []\<rparr>
      = (Inl TypeError, \<lparr>stdout = []\<rparr>)"
    using c by simp
  have 4: "sineWave_call (PyInt 248) (PyInt (- 1)) (Sequence ([PyInt 0, PyFloat 1] @ PyNone # [PyInt 3]))
        \<lparr>stdout = []\<rparr> = (Inl TypeError, \<lparr>stdout = []\<rparr>)"
    using c p by simp
  have 5: "fst (sineWave (PyInt 248) (PyInt (- 1)) [0, 1] \<lparr>stdout = []\<rparr>) \<noteq> Inl TypeError"
    using c by simp
  have 6: "sineWave_call (PyInt 248) (PyInt (- 1)) (Sequence (map PyFloat [0, 1])) \<lparr>stdout = []\<rparr>
      = sineWave (PyInt 248) (PyInt (- 1)) [0, 1] \<lparr>stdout = []\<rparr>"
    using c by blast
  from 1 2 3 4 5 6 show ?thesis by simp
qed

text \<open>
  The claim as worded has no \<open>TypeError\<close> at all once the amplitude and the offset are
  \<open>int\<close>, whatever the sampling points. The code has: on a list that holds a string,
  \<open>None\<close> or a complex number, and on an argument that cannot be iterated.
\<close>

theorem sineWave_call_TypeError_counterexample:
  "type_of (PyInt 248) = T_int \<and> type_of (PyInt (- 1)) = T_int
   \<and> sineWave_call (PyInt 248) (PyInt (- 1)) (Sequence [PyInt 0, PyStr ''a'']) \<lparr>stdout = []\<rparr>
      = (Inl TypeError, \<lparr>stdout = []\<rparr>)
   \<and> sineWave_call (PyInt 248) (PyInt (- 1)) (Sequence [PyNone]) \<lparr>stdout = []\<rparr>
      = (Inl TypeError, \<lparr>stdout = []\<rparr>)
   \<and> sineWave_call (PyInt 248) (PyInt (- 1)) (Sequence [PyComplex 0 1]) \<lparr>stdout = []\<rparr>
      = (Inl TypeError, \<lparr>stdout = []\<rparr>)
   \<and> sineWave_call (PyInt 248) (PyInt (- 1)) NotIterable \<lparr>stdout = []\<rparr>
      = (Inl TypeError, \<lparr>stdout = []\<rparr>)"
  by (simp add: sineWave_call_def sineWave_body_def)

section \<open>The generators\<close>

text \<open>
  Claim C10. \<open>hardcodedGenerator\<close> and \<open>linearGenerator\<close> yield the same sequence, the
  integers 0, 1, ..., 255 in increasing order (256 values), so \<open>sineWave\<close> run over
  either gives the same result and the same output, for any amplitude and offset.
\<close>

theorem generators_equivalent:
  "linearGenerator = Some [0..255] \<and> hardcodedGenerator = Some [0..255]
   \<and> length [0..255::int] = 256 \<and> sorted_wrt (<) [0..255::int]
   \<and> sineWave_over amplitude offset (int_points linearGenerator) w =
       sineWave_over amplitude offset (int_points hardcodedGenerator) w"
  using linearGenerator_upto hardcodedGenerator_upto length_upto_255 sorted_upto_255
  by (simp only: simp_thms)


text \<open>
  Claim C7. Every loop finishes: the three generators each return their 256 points (the
  two \<^verbatim>\<open>while\<close> loops return from any counter value and any modulation amplitude),
  and \<open>sineWave\<close> over a finite list of points returns, its loop making one pass per
  point. The encoder of the specification makes one pass over the 255 deltas and is a
  total function of the samples (for a table format whose steps are).
\<close>

theorem sampling_terminates:
  "(\<exists>pts. linearGenerator = Some pts \<and> length pts = 256)
   \<and> (\<exists>pts. hardcodedGenerator = Some pts \<and> length pts = 256)
   \<and> (\<exists>pts. longitualWaveGenerator modulation = Some pts \<and> length pts = 256)
   \<and> (\<exists>yielded'. linearGenerator_while value yielded = Some yielded')
   \<and> (\<exists>yielded'. longitualWaveGenerator_while modulation value ys = Some yielded')
   \<and> (\<exists>result. sineWave_over amplitude offset (Some sampling_points) w = Some result)
   \<and> length (sample_loop a b sampling_points []) = length sampling_points
   \<and> length (deltas samples) = 255
   \<and> (\<exists>outcome. encodeWaveform fmt samples = outcome)"
proof -
  have 1: "\<exists>yielded'. linearGenerator_while value yielded = Some yielded'"
  proof (cases "value \<le> 256")
    case True
    then show ?thesis by (simp add: linearGenerator_while_upto)
  next
    case False
    then show ?thesis by (subst linearGenerator_while.simps) simp
  qed
  have 2: "\<exists>yielded'. longitualWaveGenerator_while modulation value ys = Some yielded'"
  proof (cases "value \<le> 256")
    case True
    then show ?thesis by (simp add: longitualWaveGenerator_while_upto)
  next
    case False
    then show ?thesis by (subst longitualWaveGenerator_while.simps) simp
  qed
  have 3: "\<exists>pts. linearGenerator = Some pts \<and> length pts = 256"
    using linearGenerator_upto length_upto_255 by blast
  have 4: "\<exists>pts. hardcodedGenerator = Some pts \<and> length pts = 256"
    using hardcodedGenerator_upto length_upto_255 by blast
  have 5: "\<exists>pts. longitualWaveGenerator modulation = Some pts \<and> length pts = 256"
  proof (intro exI conjI)
    show "longitualWaveGenerator modulation =
        Some (map (\<lambda>value. of_int value + modulation * sin (2 * (of_int value / 256) * pi)) [0..255])"
      by (rule longitualWaveGenerator_upto)
    show "length (map (\<lambda>value. of_int value + modulation * sin (2 * (of_int value / 256) * pi))
        [0..255]) = 256"
      by (simp only: length_map length_upto_255)
  qed
  have 6: "\<exists>result. sineWave_over amplitude offset (Some sampling_points) w = Some result"
    by (simp add: sineWave_over_def)
  have 7: "length (sample_loop a b sampling_points []) = length sampling_points"
    by (simp add: sample_loop_map)
  have 8: "length (deltas samples) = 255"
    by (simp add: deltas_def)
  have 9: "\<exists>outcome. encodeWaveform fmt samples = outcome"
    by simp
  from 1 2 3 4 5 6 7 8 9 show ?thesis by (simp only: simp_thms)
qed

section \<open>What sineWave returns\<close>

text \<open>
  Claim C8. A list that \<open>sineWave\<close> returns has exactly 256 elements and a maximum of
  at most 255. There is no lower bound: for every integer amplitude and every 256
  sampling points there is an offset (\<open>- \<bar>amplitude\<bar> - 1\<close> will do) with which
  \<open>sineWave\<close> returns a list of negative values, raising nothing and printing nothing.
\<close>

theorem sineWave_result_bounds:
  "(sineWave amplitude offset sampling_points w = (Inr vs, w') \<longrightarrow>
      length vs = 256 \<and> Max (set vs) \<le> 255 \<and> (\<forall>v\<in>set vs. v \<le> 255))
   \<and> (length sampling_points = 256 \<longrightarrow>
      (\<exists>b vs. sineWave (PyInt a) (PyInt b) sampling_points w = (Inr vs, w)
         \<and> length vs = 256 \<and> (\<forall>v\<in>set vs. v < 0)))"
proof (intro conjI impI)
  assume r: "sineWave amplitude offset sampling_points w = (Inr vs, w')"
  then have ty: "type_of amplitude = type_of offset \<and> type_of offset = T_int"
    by (auto simp: sineWave_def split: if_splits)
  let ?vs = "sample_loop (int_of amplitude) (int_of offset) sampling_points []"
  have "fst (check_values ?vs w) = Inr vs" using r ty by (simp add: sineWave_def)
  then have *: "?vs = vs \<and> vs \<noteq> [] \<and> \<not> (\<exists>v\<in>set vs. 255 < v) \<and> length vs = 256"
    unfolding check_values_cases by (auto split: if_splits)
  then show "length vs = 256" by simp
  from * show "\<forall>v\<in>set vs. v \<le> 255" by auto
  with * show "Max (set vs) \<le> 255" by simp
next
  assume len: "length sampling_points = 256"
  let ?b = "- \<bar>a\<bar> - 1"
  let ?vs = "map (sample a ?b) sampling_points"
  have neg: "\<forall>v\<in>set ?vs. v \<le> - 1"
    using sample_le [of a ?b] by auto
  have ne: "?vs \<noteq> []" using len by auto
  have "fst (check_values ?vs w) = Inr ?vs"
    unfolding check_values_cases using neg ne len by auto
  moreover have "snd (check_values ?vs w) = w"
  proof -
    have "Max (set ?vs) \<le> - 1" using neg ne by simp
    then have "\<not> 247 < Max (set ?vs)" by linarith
    then show ?thesis unfolding check_values_world by simp
  qed
  ultimately have "check_values ?vs w = (Inr ?vs, w)" by (metis prod.collapse)
  then have "sineWave (PyInt a) (PyInt ?b) sampling_points w = (Inr ?vs, w)"
    by (simp add: sineWave_def sample_loop_map)
  moreover have "length ?vs = 256" using len by simp
  moreover have "\<forall>v\<in>set ?vs. v < 0" using neg by auto
  ultimately show "\<exists>b vs. sineWave (PyInt a) (PyInt b) sampling_points w = (Inr vs, w)
         \<and> length vs = 256 \<and> (\<forall>v\<in>set vs. v < 0)" by blast
qed

theorem sineWave_result_bounds_witness:
  "sineWave (PyInt 0) (PyInt (- 1)) (map of_int [0..255]) \<lparr>stdout = []\<rparr>
     = (Inr (replicate 256 (- 1)), \<lparr>stdout = []\<rparr>)
   \<and> length (replicate 256 (- 1 :: int)) = 256
   \<and> Max (set (replicate 256 (- 1 :: int))) \<le> 255
   \<and> length (map real_of_int [0..255]) = 256
   \<and> (\<exists>b vs. sineWave (PyInt 248) (PyInt b) (map of_int [0..255]) \<lparr>stdout = []\<rparr>
          = (Inr vs, \<lparr>stdout = []\<rparr>) \<and> length vs = 256 \<and> (\<exists>v. v \<in> set vs \<and> v < 0))"
proof -
  have 1: "sineWave (PyInt 0) (PyInt (- 1)) (map of_int [0..255]) \<lparr>stdout = []\<rparr>
     = (Inr (replicate 256 (- 1)), \<lparr>stdout = []\<rparr>)"
    using sineWave_amplitude_0 [OF length_points_255, of "- 1" "\<lparr>stdout = []\<rparr>"] by simp
  note t = sineWave_result_bounds [of "PyInt 0" "PyInt (- 1)" "map of_int [0..255]"
      "\<lparr>stdout = []\<rparr>" "replicate 256 (- 1)" "\<lparr>stdout = []\<rparr>" 248]
  from t 1 have 2: "length (replicate 256 (- 1 :: int)) = 256
      \<and> Max (set (replicate 256 (- 1 :: int))) \<le> 255" by blast
  from t length_points_255 obtain b vs where
    3: "sineWave (PyInt 248) (PyInt b) (map of_int [0..255]) \<lparr>stdout = []\<rparr> = (Inr vs, \<lparr>stdout = []\<rparr>)"
      "length vs = 256" "\<forall>v\<in>set vs. v < 0" by blast
  from 3(2) have "vs \<noteq> []" by auto
  then obtain v where "v \<in> set vs" by (cases vs) auto
  with 3 have "\<exists>b vs. sineWave (PyInt 248) (PyInt b) (map of_int [0..255]) \<lparr>stdout = []\<rparr>
          = (Inr vs, \<lparr>stdout = []\<rparr>) \<and> length vs = 256 \<and> (\<exists>v. v \<in> set vs \<and> v < 0)" by blast
  with 1 2 length_points_255 show ?thesis by (simp only: simp_thms)
qed

section \<open>The checks on the sampled values\<close>

text \<open>
  Claim C5. The check against 247 is advisory: for every list of 256 values whose maximum
  is above 247 and at most 255 the warning is printed, no error is raised, and the list
  is returned as it is, by the checks and so by \<open>sineWave\<close>. Whether a list passes never
  depends on the warning: with a maximum of at most 255 it is returned exactly when it
  has 256 values, and refused for its length otherwise.
\<close>

theorem amplitude_warning_advisory:
  "(length vs = 256 \<and> 247 < Max (set vs) \<and> Max (set vs) \<le> 255 \<longrightarrow>
      check_values vs w = (Inr vs, py_print amplitude_warning w))
   \<and> (length sampling_points = 256
        \<and> 247 < Max (set (map (sample a b) sampling_points))
        \<and> Max (set (map (sample a b) sampling_points)) \<le> 255 \<longrightarrow>
      sineWave (PyInt a) (PyInt b) sampling_points w =
        (Inr (map (sample a b) sampling_points), py_print amplitude_warning w))
   \<and> (vs \<noteq> [] \<and> Max (set vs) \<le> 255 \<longrightarrow>
      fst (check_values vs w) =
        (if length vs = 256 then Inr vs
         else Inl (RuntimeError ''256 sampling points are required'')))"
proof -
  have *: "check_values xs w = (Inr xs, py_print amplitude_warning w)"
    if "length xs = 256" "247 < Max (set xs)" "Max (set xs) \<le> 255" for xs
  proof -
    from that(1) have ne: "xs \<noteq> []" by auto
    from that(3) ne have "\<not> (\<exists>v\<in>set xs. 255 < v)" by (auto simp: not_less)
    then have "fst (check_values xs w) = Inr xs"
      unfolding check_values_cases using ne that(1) by simp
    moreover have "\<not> 256 \<le> Max (set xs)" using that(3) by linarith
    then have "snd (check_values xs w) = py_print amplitude_warning w"
      unfolding check_values_world using ne that(2) by simp
    ultimately show ?thesis by (metis prod.collapse)
  qed
  have **: "fst (check_values vs w) =
        (if length vs = 256 then Inr vs
         else Inl (RuntimeError ''256 sampling points are required''))"
    if "vs \<noteq> []" "Max (set vs) \<le> 255"
  proof -
    from that have "\<not> (\<exists>v\<in>set vs. 255 < v)" by (auto simp: not_less)
    then show ?thesis unfolding check_values_cases using that(1) by simp
  qed
  show ?thesis
  proof (intro conjI impI)
    assume "length vs = 256 \<and> 247 < Max (set vs) \<and> Max (set vs) \<le> 255"
    then show "check_values vs w = (Inr vs, py_print amplitude_warning w)"
      using * [of vs] by blast
  next
    let ?vs = "map (sample a b) sampling_points"
    assume "length sampling_points = 256 \<and> 247 < Max (set ?vs) \<and> Max (set ?vs) \<le> 255"
    then have "length ?vs = 256 \<and> 247 < Max (set ?vs) \<and> Max (set ?vs) \<le> 255"
      by (simp only: length_map)
    then have "check_values ?vs w = (Inr ?vs, py_print amplitude_warning w)"
      using * [of ?vs] by blast
    then show "sineWave (PyInt a) (PyInt b) sampling_points w =
        (Inr ?vs, py_print amplitude_warning w)"
      by (simp add: sineWave_def sample_loop_map)
  next
    assume "vs \<noteq> [] \<and> Max (set vs) \<le> 255"
    then show "fst (check_values vs w) =
        (if length vs = 256 then Inr vs
         else Inl (RuntimeError ''256 sampling points are required''))"
      using ** by blast
  qed
qed

theorem amplitude_warning_advisory_witness:
  "check_values (replicate 256 250) \<lparr>stdout = []\<rparr>
      = (Inr (replicate 256 250), \<lparr>stdout = [amplitude_warning]\<rparr>)
   \<and> sineWave (PyInt 0) (PyInt 250) (replicate 256 0) \<lparr>stdout = []\<rparr>
      = (Inr (replicate 256 250), \<lparr>stdout = [amplitude_warning]\<rparr>)
   \<and> fst (check_values (replicate 256 250) \<lparr>stdout = []\<rparr>) = Inr (replicate 256 250)"
proof -
  have s: "set (replicate 256 (250::int)) = {250}" by simp
  have m: "Max (set (replicate 256 (250::int))) = 250" unfolding s by simp
  have v: "map (sample 0 250) (replicate 256 0) = replicate 256 250"
    by (simp add: sample_zero)
  note t = amplitude_warning_advisory [of "replicate 256 250" "\<lparr>stdout = []\<rparr>" "replicate 256 0" 0 250]
  show ?thesis using t unfolding v m by (simp add: py_print_def)
qed

text \<open>
  Which lists the checks of \<open>sineWave\<close> let through: those of exactly 256 values, none
  above 255. An empty list or a value above 255 is refused with \<open>ValueError\<close>, any other
  length with \<open>RuntimeError\<close>. These are checks on what \<open>sineWave\<close> has sampled; the
  validation of the encoder's input is the encoder's.
\<close>

lemma check_values_shape:
  "(length vs = 256 \<and> (\<forall>v\<in>set vs. v \<le> 255) \<longrightarrow> fst (check_values vs w) = Inr vs)
   \<and> (vs = [] \<or> (\<exists>v\<in>set vs. 255 < v) \<longrightarrow>
        (\<exists>msg. fst (check_values vs w) = Inl (ValueError msg)))
   \<and> (vs \<noteq> [] \<and> (\<forall>v\<in>set vs. v \<le> 255) \<and> length vs \<noteq> 256 \<longrightarrow>
        fst (check_values vs w) = Inl (RuntimeError ''256 sampling points are required''))
   \<and> (length vs \<noteq> 256 \<or> (\<exists>v\<in>set vs. 255 < v) \<longrightarrow>
        (\<exists>e. fst (check_values vs w) = Inl e))
   \<and> fst (sineWave (PyInt a) (PyInt b) sampling_points w) =
        fst (check_values (map (sample a b) sampling_points) w)"
proof -
  have k: "(\<forall>v\<in>set vs. v \<le> 255) = (\<not> (\<exists>v\<in>set vs. 255 < v))"
    by (auto simp: not_less)
  have "fst (sineWave (PyInt a) (PyInt b) sampling_points w) =
        fst (check_values (map (sample a b) sampling_points) w)"
    by (simp add: sineWave_def sample_loop_map)
  then show ?thesis unfolding k check_values_cases [of vs] by auto
qed

section \<open>Determinism\<close>




section \<open>The encoder\<close>

lemma length_deltas: "length (deltas samples) = 255"
  by (simp add: deltas_def)

lemma deltas_nth: "i < 255 \<Longrightarrow> deltas samples ! i = samples ! (i + 1) - samples ! i"
  by (simp add: deltas_def)

text \<open>The encoder run on the format above: a staircase that rises by one every second sample.\<close>

lemma encode_staircase:
  "encodeWaveform single_zone_format (map (\<lambda>i. int i div 2) [0..<256]) =
     Inr \<lparr>table_words = [0xAAAAAAAA, 0xAAAAAAAA, 0xAAAAAAAA, 0xAAAAAAAA,
                         0xAAAAAAAA, 0xAAAAAAAA, 0xAAAAAAAA, 0x2AAAAAAA],
          control_word = 0, start_word = 0\<rparr>"
  by code_simp

lemma defective_mismatch:
  "shape_ok (replicate 256 7)
   \<and> (\<forall>d\<in>set (deltas (replicate 256 7)). 0 \<le> d \<and> d \<le> 3)
   \<and> determine_zones defective_format (deltas (replicate 256 7)) = Some 0
   \<and> reconstruct defective_format
        (pack_registers defective_format (replicate 256 7) (deltas (replicate 256 7)) 0)
      \<noteq> replicate 256 7"
  by code_simp

lemma step_of_4:
  "shape_ok (replicate 255 0 @ [4]) \<and> (254::nat) < 255
   \<and> 3 < (replicate 255 0 @ [4]) ! (254 + 1) - (replicate 255 0 @ [4 :: int]) ! 254"
  by code_simp

lemma step_down:
  "shape_ok (replicate 255 5 @ [4]) \<and> (254::nat) < 255
   \<and> (replicate 255 5 @ [4]) ! (254 + 1) - (replicate 255 5 @ [4 :: int]) ! 254 < 0"
  by code_simp

text \<open>
  Claim C1. Whenever \<open>encodeWaveform\<close> returns a RegisterSet, the waveform has 256
  samples and the reconstruction from that RegisterSet is the input, at all 256
  positions; and when the registers packed for a valid waveform do not reconstruct to it,
  the outcome is \<open>InternalConsistencyError\<close>, not a RegisterSet. For every table format.
\<close>

theorem encodeWaveform_round_trip:
  "(encodeWaveform fmt samples = Inr registers \<longrightarrow>
      length samples = 256 \<and> reconstruct fmt registers = samples
      \<and> (\<forall>i<256. reconstruct fmt registers ! i = samples ! i))
   \<and> (shape_ok samples \<and> (\<forall>d\<in>set (deltas samples). 0 \<le> d \<and> d \<le> 3)
        \<and> determine_zones fmt (deltas samples) = Some zones
        \<and> reconstruct fmt (pack_registers fmt samples (deltas samples) zones) \<noteq> samples \<longrightarrow>
      encodeWaveform fmt samples = Inl InternalConsistencyError)"
proof (intro conjI impI)
  assume r: "encodeWaveform fmt samples = Inr registers"
  then have s: "shape_ok samples"
    by (auto simp: encodeWaveform_def split: if_splits)
  then show "length samples = 256" by (simp add: shape_ok_def)
  from r s show rt: "reconstruct fmt registers = samples"
    by (auto simp: encodeWaveform_def Let_def split: if_splits option.splits)
  then show "\<forall>i<256. reconstruct fmt registers ! i = samples ! i" by simp
next
  assume "shape_ok samples \<and> (\<forall>d\<in>set (deltas samples). 0 \<le> d \<and> d \<le> 3)
        \<and> determine_zones fmt (deltas samples) = Some zones
        \<and> reconstruct fmt (pack_registers fmt samples (deltas samples) zones) \<noteq> samples"
  then show "encodeWaveform fmt samples = Inl InternalConsistencyError"
    by (auto simp: encodeWaveform_def Let_def)
qed

theorem encodeWaveform_round_trip_witness:
  "reconstruct single_zone_format
      \<lparr>table_words = [0xAAAAAAAA, 0xAAAAAAAA, 0xAAAAAAAA, 0xAAAAAAAA,
                      0xAAAAAAAA, 0xAAAAAAAA, 0xAAAAAAAA, 0x2AAAAAAA],
       control_word = 0, start_word = 0\<rparr>
     = map (\<lambda>i. int i div 2) [0..<256]
   \<and> encodeWaveform defective_format (replicate 256 7) = Inl InternalConsistencyError"
  using encodeWaveform_round_trip [of single_zone_format "map (\<lambda>i. int i div 2) [0..<256]"
      "\<lparr>table_words = [0xAAAAAAAA, 0xAAAAAAAA, 0xAAAAAAAA, 0xAAAAAAAA,
                       0xAAAAAAAA, 0xAAAAAAAA, 0xAAAAAAAA, 0x2AAAAAAA],
        control_word = 0, start_word = 0\<rparr>"]
    encodeWaveform_round_trip [of defective_format "replicate 256 7" _ 0]
    encode_staircase defective_mismatch
  by blast

text \<open>
  Claim C3. For a waveform of 256 samples in [0, 255], if the difference between two
  consecutive samples is negative or greater than 3 at some position, the encoder fails
  with \<open>EncodingError\<close> (''non-monotone or step too large''); and whatever the samples
  are, such a difference means that no RegisterSet is returned. For every table format.
\<close>

theorem encodeWaveform_rejects_bad_delta:
  "(shape_ok samples \<and> i < 255
     \<and> (samples ! (i + 1) - samples ! i < 0 \<or> 3 < samples ! (i + 1) - samples ! i) \<longrightarrow>
    encodeWaveform fmt samples = Inl (EncodingError ''non-monotone or step too large''))
   \<and> (i < 255
     \<and> (samples ! (i + 1) - samples ! i < 0 \<or> 3 < samples ! (i + 1) - samples ! i) \<longrightarrow>
    (\<forall>registers. encodeWaveform fmt samples \<noteq> Inr registers))"
proof -
  have *: "encodeWaveform fmt samples = Inl (EncodingError ''non-monotone or step too large'')"
    if s: "shape_ok samples" and i: "i < 255"
      and bad: "samples ! (i + 1) - samples ! i < 0 \<or> 3 < samples ! (i + 1) - samples ! i"
  proof -
    from i have "deltas samples ! i \<in> set (deltas samples)"
      by (simp add: length_deltas)
    moreover have "deltas samples ! i < 0 \<or> 3 < deltas samples ! i"
      using i bad by (simp add: deltas_nth)
    ultimately have "\<exists>d\<in>set (deltas samples). d < 0 \<or> 3 < d" by blast
    then show ?thesis using s by (simp add: encodeWaveform_def Let_def)
  qed
  have "\<forall>registers. encodeWaveform fmt samples \<noteq> Inr registers"
    if i: "i < 255"
      and bad: "samples ! (i + 1) - samples ! i < 0 \<or> 3 < samples ! (i + 1) - samples ! i"
  proof (cases "shape_ok samples")
    case True
    then show ?thesis using * [OF True i bad] by simp
  next
    case False
    then show ?thesis by (simp add: encodeWaveform_def)
  qed
  with * show ?thesis by blast
qed

theorem encodeWaveform_rejects_bad_delta_witness:
  "encodeWaveform single_zone_format (replicate 255 0 @ [4])
     = Inl (EncodingError ''non-monotone or step too large'')
   \<and> encodeWaveform single_zone_format (replicate 255 5 @ [4])
     = Inl (EncodingError ''non-monotone or step too large'')"
  using encodeWaveform_rejects_bad_delta [of "replicate 255 0 @ [4]" 254 single_zone_format]
    encodeWaveform_rejects_bad_delta [of "replicate 255 5 @ [4]" 254 single_zone_format]
    step_of_4 step_down
  by blast

end
